theory Spec2Isabelle
  imports Complex_Main "HOL-Library.Word" "HOL-Library.Sublist"
begin

section \<open>SentinelFS: the write-path detection engine of \<open>sentinelfs.c\<close>\<close>

text \<open>
  The development follows \<open>src/sentinelfs.c\<close> function by function. Conventions:
  \<^item> a byte is an \<open>8 word\<close>, a buffer \<open>(buffer, len)\<close> is a byte list whose length is
    \<open>len\<close>; a C string is a \<open>string\<close> (the terminating NUL is not stored);
  \<^item> the three \<open>unsigned long\<close> counters of \<open>stats\<close> are \<open>64 word\<close>s (LP64), so
    \<open>++\<close> wraps;
  \<^item> a finite \<open>double\<close> is the real number it denotes, so comparisons are exact; the
    operations that round (the conversion of a count, \<open>/\<close>, \<open>log2\<close>, \<open>*\<close>, \<open>-\<close>) are
    not fixed here: they are the fields of a record \<open>fp_arith\<close> that every function
    computing with doubles takes as its first argument;
  \<^item> libmagic is opaque: the context carries the function \<open>magic_buffer\<close> computes,
    \<open>None\<close> standing for the \<open>NULL\<close> it returns on failure;
  \<^item> the operating system is a record \<open>world\<close>: the regular files by name, the clock,
    the lines written to \<open>stderr\<close>, which paths the system refuses and with which
    error number, and the faults the storage may inject; a failing system call returns
    \<open>Inl errno\<close>;
  \<^item> a function of the program is the state transformer of one call that runs without
    another thread in between; the interleaving of the counter updates of concurrent
    writes is modelled separately, by steps.
\<close>

type_synonym byte = "8 word"
type_synonym path = string

subsection \<open>Configuration\<close>

definition ENTROPY_THRESHOLD :: real where
  "ENTROPY_THRESHOLD = 75 / 10"

definition JIT_BACKUP_MAX_SIZE :: int where
  "JIT_BACKUP_MAX_SIZE = 50 * 1024 * 1024"

definition MAX_PATH :: nat where
  "MAX_PATH = 4096"

definition BACKUP_DIR :: string where
  "BACKUP_DIR = ''.sentinelfs_backups''"

definition ENOENT :: int where "ENOENT = 2"
definition ENOTDIR :: int where "ENOTDIR = 20"
definition EIO :: int where "EIO = 5"
definition EBADF :: int where "EBADF = 9"
definition EINVAL :: int where "EINVAL = 22"

subsection \<open>Global context, statistics, the world\<close>

record sentinelfs_context_t =
  storage_path :: string
  backup_path :: string
  magic_cookie :: "byte list \<Rightarrow> string option"

record stats_t =
  total_writes :: "64 word"
  blocked_writes :: "64 word"
  backups_created :: "64 word"

text \<open>The lines the program prints on \<open>stderr\<close>, one constructor per \<open>fprintf\<close>.\<close>

datatype diag =
    LibMagicError
  | SkippingBackup path
  | BackupCreated path path
  | RansomwareDetected real real

record world =
  stats :: stats_t
  stderr :: "diag list"
  files :: "path \<Rightarrow> byte list option"
  tv_sec :: int
  denied :: "path \<Rightarrow> bool"
  errno_of :: "path \<Rightarrow> int"
  read_limit :: "path \<Rightarrow> nat option"
  write_limit :: "path \<Rightarrow> nat option"
  open_files :: "path list"

text \<open>
  \<open>files\<close> maps the name of every existing regular file to its contents;
  \<open>open_files\<close> lists the streams and descriptors the process holds. \<open>denied p\<close>
  says that the system refuses to open or create \<open>p\<close>, whatever the reason: a missing
  permission, a directory of the path that is missing or is not a directory, a name
  that is too long. \<open>errno_of p\<close> is the error number a failing call on \<open>p\<close> reports
  (\<open>ENOENT\<close>, \<open>ENOTDIR\<close>, \<open>EACCES\<close>, \<open>ENAMETOOLONG\<close>, ...), also when \<open>p\<close> names no
  file. \<open>read_limit p = Some k\<close> is a medium
  error after the first \<open>k\<close> bytes of \<open>p\<close>; \<open>write_limit p = Some k\<close> is a device that
  takes no byte of \<open>p\<close> beyond the first \<open>k\<close> (a full disk, a quota).
\<close>

definition fprintf_stderr :: "diag \<Rightarrow> world \<Rightarrow> world" where
  "fprintf_stderr d w = w\<lparr>stderr := stderr w @ [d]\<rparr>"

subsection \<open>C library functions used by the program\<close>

text \<open>
  \<open>snprintf(buf, size, ...)\<close> stores at most \<open>size - 1\<close> characters of the formatted
  text, then a NUL; its return value is discarded everywhere in the program.
\<close>

definition snprintf :: "nat \<Rightarrow> string \<Rightarrow> string" where
  "snprintf n formatted = take (n - 1) formatted"

text \<open>\<open>strstr\<close>: the index of the first occurrence of the needle, \<open>None\<close> for \<open>NULL\<close>.\<close>

fun strstr :: "string \<Rightarrow> string \<Rightarrow> nat option" where
  "strstr [] needle = (if needle = [] then Some 0 else None)"
| "strstr (c # cs) needle =
     (if take (length needle) (c # cs) = needle then Some 0
      else map_option Suc (strstr cs needle))"

text \<open>\<open>strrchr\<close>: the text from the last occurrence of the character on.\<close>

fun strrchr :: "string \<Rightarrow> char \<Rightarrow> string option" where
  "strrchr [] c = None"
| "strrchr (x # xs) c =
     (case strrchr xs c of
        Some r \<Rightarrow> Some r
      | None \<Rightarrow> if x = c then Some (x # xs) else None)"

text \<open>\<open>%ld\<close>: a \<open>long\<close> in decimal.\<close>

function dec_nat :: "nat \<Rightarrow> string" where
  "dec_nat n =
     (if n < 10 then [''0123456789'' ! n]
      else dec_nat (n div 10) @ [''0123456789'' ! (n mod 10)])"
  by pat_completeness auto
termination
  by (relation "measure (\<lambda>n. n)") auto

declare dec_nat.simps [simp del]

definition dec_long :: "int \<Rightarrow> string" where
  "dec_long i = (if i < 0 then CHR ''-'' # dec_nat (nat (- i)) else dec_nat (nat i))"

text \<open>
  Files. \<open>stat\<close> gives \<open>st_size\<close>. A stream or descriptor is named by the path it was
  opened on. \<open>fopen(p, "rb")\<close> and \<open>open(p, O_WRONLY)\<close> need the file to exist;
  \<open>fopen(p, "wb")\<close> and \<open>creat\<close> create it or cut it to length 0, unless the system
  refuses the path. Every failure reports \<open>errno_of p\<close>.
\<close>

definition stat :: "world \<Rightarrow> path \<Rightarrow> int + int" where
  "stat w p =
     (case files w p of None \<Rightarrow> Inl (errno_of w p) | Some d \<Rightarrow> Inr (int (length d)))"

definition fopen_rb :: "world \<Rightarrow> path \<Rightarrow> int + (path \<times> world)" where
  "fopen_rb w p =
     (case files w p of
        None \<Rightarrow> Inl (errno_of w p)
      | Some d \<Rightarrow> if denied w p then Inl (errno_of w p)
                  else Inr (p, w\<lparr>open_files := p # open_files w\<rparr>))"

definition fopen_wb :: "world \<Rightarrow> path \<Rightarrow> int + (path \<times> world)" where
  "fopen_wb w p =
     (if denied w p then Inl (errno_of w p)
      else Inr (p, w\<lparr>files := (files w)(p \<mapsto> []), open_files := p # open_files w\<rparr>))"

definition fclose :: "path \<Rightarrow> world \<Rightarrow> world" where
  "fclose f w = w\<lparr>open_files := remove1 f (open_files w)\<rparr>"

text \<open>
  What successive \<open>fread\<close>s on a stream opened at the start of \<open>p\<close> deliver before they
  return 0: the contents of the file, up to the first read error.
\<close>

definition stream_data :: "world \<Rightarrow> path \<Rightarrow> byte list" where
  "stream_data w p =
     (case files w p of
        None \<Rightarrow> []
      | Some d \<Rightarrow> (case read_limit w p of None \<Rightarrow> d | Some k \<Rightarrow> take k d))"

text \<open>\<open>fread(buffer, 1, n, src)\<close>: the bytes read, and what is left of the stream.\<close>

definition fread :: "nat \<Rightarrow> byte list \<Rightarrow> byte list \<times> byte list" where
  "fread n src = (take n src, drop n src)"

text \<open>
  What a device with the given limit takes of a buffer written behind \<open>used\<close> bytes.
\<close>

definition device_takes :: "nat option \<Rightarrow> nat \<Rightarrow> byte list \<Rightarrow> byte list" where
  "device_takes limit used buffer =
     (case limit of None \<Rightarrow> buffer | Some k \<Rightarrow> take (k - used) buffer)"

text \<open>
  \<open>fwrite(buffer, 1, bytes, dst)\<close> appends to the file as much of the buffer as the
  device takes. The program discards the number of bytes written.
\<close>

definition fwrite :: "byte list \<Rightarrow> path \<Rightarrow> world \<Rightarrow> world" where
  "fwrite buffer dst w =
     (case files w dst of
        None \<Rightarrow> w
      | Some old \<Rightarrow>
          w\<lparr>files := (files w)(dst \<mapsto>
               old @ device_takes (write_limit w dst) (length old) buffer)\<rparr>)"

definition open_wronly :: "world \<Rightarrow> path \<Rightarrow> int + (path \<times> world)" where
  "open_wronly w p =
     (case files w p of
        None \<Rightarrow> Inl (errno_of w p)
      | Some d \<Rightarrow> if denied w p then Inl (errno_of w p)
                  else Inr (p, w\<lparr>open_files := p # open_files w\<rparr>))"

definition close_fd :: "path \<Rightarrow> world \<Rightarrow> world" where
  "close_fd fd w = w\<lparr>open_files := remove1 fd (open_files w)\<rparr>"

definition creat :: "world \<Rightarrow> path \<Rightarrow> int + (path \<times> world)" where
  "creat w p =
     (if denied w p then Inl (errno_of w p)
      else Inr (p, w\<lparr>files := (files w)(p \<mapsto> []), open_files := p # open_files w\<rparr>))"

text \<open>
  \<open>pwrite(fd, buf, size, offset)\<close>. An offset that is negative, or that the size carries
  beyond the largest \<open>off_t\<close>, is \<open>EINVAL\<close>. Otherwise the bytes the device takes (Linux
  transfers at most \<open>0x7ffff000\<close> bytes in one call, so the count fits the \<open>int\<close> the
  program stores it in) replace the contents from \<open>offset\<close> on, a gap being filled with
  zero bytes; a device that takes none reports \<open>errno_of\<close>.
\<close>

definition pwrite :: "world \<Rightarrow> path \<Rightarrow> byte list \<Rightarrow> int \<Rightarrow> int + (int \<times> world)" where
  "pwrite w fd buf offset =
     (if offset < 0 \<or> offset + int (length buf) > 2 ^ 63 - 1 then Inl EINVAL
      else case files w fd of
        None \<Rightarrow> Inl EBADF
      | Some old \<Rightarrow>
          (let off = nat offset;
               accepted = take 0x7ffff000 (device_takes (write_limit w fd) off buf)
           in if buf = [] then Inr (0, w)
              else if accepted = [] then Inl (errno_of w fd)
              else Inr (int (length accepted),
                        w\<lparr>files := (files w)(fd \<mapsto>
                             take off (old @ replicate (off - length old) 0)
                             @ accepted @ drop (off + length accepted) old)\<rparr>)))"

subsection \<open>Path translation\<close>

definition translate_path :: "sentinelfs_context_t \<Rightarrow> path \<Rightarrow> path" where
  "translate_path global_ctx path = snprintf MAX_PATH (storage_path global_ctx @ path)"

definition get_backup_path :: "sentinelfs_context_t \<Rightarrow> path \<Rightarrow> world \<Rightarrow> path" where
  "get_backup_path global_ctx original_path w =
     (let basename = (case strrchr original_path CHR ''/'' of
                        Some r \<Rightarrow> tl r
                      | None \<Rightarrow> original_path)
      in snprintf MAX_PATH
           (backup_path global_ctx @ ''/'' @ basename @ ''.'' @ dec_long (tv_sec w) @ ''.backup''))"

subsection \<open>Floating-point arithmetic\<close>

text \<open>
  The operations on doubles that \<open>calculate_entropy\<close> uses. The program takes them from
  the processor and from libm; the source does not say how they round.
\<close>

record fp_arith =
  fp_of_ulong :: "nat \<Rightarrow> real"
  fp_div :: "real \<Rightarrow> real \<Rightarrow> real"
  fp_log2 :: "real \<Rightarrow> real"
  fp_mul :: "real \<Rightarrow> real \<Rightarrow> real"
  fp_sub :: "real \<Rightarrow> real \<Rightarrow> real"

subsection \<open>Shannon entropy\<close>

text \<open>
  The frequency table is a list of 256 counts. A count never exceeds \<open>len\<close>, which is a
  \<open>size_t\<close>, so the \<open>unsigned long\<close> counts cannot wrap and are natural numbers here.
\<close>

definition count_frequencies :: "byte list \<Rightarrow> nat list" where
  "count_frequencies buffer =
     fold (\<lambda>b counts. counts[unat b := counts ! unat b + 1]) buffer (replicate 256 0)"

definition entropy_step :: "fp_arith \<Rightarrow> nat list \<Rightarrow> nat \<Rightarrow> nat \<Rightarrow> real \<Rightarrow> real" where
  "entropy_step fp counts len i entropy =
     (if counts ! i > 0
      then (let probability = fp_div fp (fp_of_ulong fp (counts ! i)) (fp_of_ulong fp len)
            in fp_sub fp entropy (fp_mul fp probability (fp_log2 fp probability)))
      else entropy)"

definition calculate_entropy :: "fp_arith \<Rightarrow> byte list \<Rightarrow> real" where
  "calculate_entropy fp buffer =
     (let len = length buffer
      in if len = 0 then 0
         else fold (entropy_step fp (count_frequencies buffer) len) [0..<256] 0)"

subsection \<open>Content inspection\<close>

definition safe_types :: "string list" where
  "safe_types =
     [''text/'',
      ''application/pdf'',
      ''application/x-executable'',
      ''application/x-sharedlib'',
      ''application/x-shellscript'']"

fun whitelist_loop :: "string \<Rightarrow> string list \<Rightarrow> bool" where
  "whitelist_loop mime [] = False"
| "whitelist_loop mime (t # ts) =
     (if strstr mime t = Some 0 then True else whitelist_loop mime ts)"

definition is_whitelisted_file ::
  "sentinelfs_context_t \<Rightarrow> byte list \<Rightarrow> world \<Rightarrow> int \<times> world" where
  "is_whitelisted_file global_ctx buffer w =
     (case magic_cookie global_ctx buffer of
        None \<Rightarrow> (0, fprintf_stderr LibMagicError w)
      | Some mime \<Rightarrow>
          if whitelist_loop mime safe_types then (1, w)
          else if length buffer \<ge> 2 \<and> buffer ! 0 = 0x23 \<and> buffer ! 1 = 0x21 then (1, w)
          else (0, w))"

subsection \<open>Just-in-time backup\<close>

text \<open>
  The copy loop: \<open>src\<close> is what the source stream still has to deliver. The first
  \<open>fread\<close> comes after both \<open>fopen\<close>s, so \<open>create_jit_backup\<close> reads the stream in the
  world the second \<open>fopen\<close> has left.
\<close>

function copy_loop :: "byte list \<Rightarrow> path \<Rightarrow> world \<Rightarrow> world" where
  "copy_loop src dst w =
     (let (buffer, rest) = fread 8192 src;
          bytes = length buffer
      in if bytes > 0 then copy_loop rest dst (fwrite buffer dst w) else w)"
  by pat_completeness auto
termination
  by (relation "measure (\<lambda>(src, dst, w). length src)") (auto simp: fread_def)

declare copy_loop.simps [simp del]

definition create_jit_backup ::
  "sentinelfs_context_t \<Rightarrow> path \<Rightarrow> world \<Rightarrow> int \<times> world" where
  "create_jit_backup global_ctx source_path w =
     (case stat w source_path of
        Inl errno \<Rightarrow> (- 1, w)
      | Inr st_size \<Rightarrow>
          if st_size > JIT_BACKUP_MAX_SIZE
          then (0, fprintf_stderr (SkippingBackup source_path) w)
          else
            (let backup_path = get_backup_path global_ctx source_path w
             in case fopen_rb w source_path of
                  Inl errno \<Rightarrow> (- 1, w)
                | Inr (src, w1) \<Rightarrow>
                    (case fopen_wb w1 backup_path of
                       Inl errno \<Rightarrow> (- 1, fclose src w1)
                     | Inr (dst, w2) \<Rightarrow>
                         (let w3 = copy_loop (stream_data w2 src) dst w2;
                              w4 = fclose dst (fclose src w3);
                              w5 = w4\<lparr>stats := (stats w4)
                                     \<lparr>backups_created := backups_created (stats w4) + 1\<rparr>\<rparr>
                          in (0, fprintf_stderr (BackupCreated source_path backup_path) w5)))))"

subsection \<open>The detector\<close>

definition detect_ransomware ::
  "fp_arith \<Rightarrow> sentinelfs_context_t \<Rightarrow> byte list \<Rightarrow> world \<Rightarrow> int \<times> world" where
  "detect_ransomware fp global_ctx buffer w =
     (let w1 = w\<lparr>stats := (stats w)\<lparr>total_writes := total_writes (stats w) + 1\<rparr>\<rparr>;
          (whitelisted, w2) = is_whitelisted_file global_ctx buffer w1
      in if whitelisted \<noteq> 0 then (0, w2)
         else (let entropy = calculate_entropy fp buffer
               in if entropy > ENTROPY_THRESHOLD
                  then (- EIO,
                        fprintf_stderr (RansomwareDetected entropy ENTROPY_THRESHOLD)
                          (w2\<lparr>stats := (stats w2)\<lparr>blocked_writes := blocked_writes (stats w2) + 1\<rparr>\<rparr>))
                  else (0, w2)))"

subsection \<open>The detector, step by step\<close>

text \<open>
  The transport calls the operations from several worker threads, and the program
  takes no lock: \<open>stats.total_writes++\<close> and \<open>stats.blocked_writes++\<close> are each a read
  of the counter and a write of the value read plus one, and another thread can run
  between the two. A thread inside \<open>detect_ransomware\<close> is at one of these points; a
  schedule is the order in which the threads take their steps.
\<close>

datatype detect_pc =
    LoadTotal
  | StoreTotal "64 word"
  | Inspect
  | LoadBlocked
  | StoreBlocked "64 word"
  | Report
  | Returned int

record detect_thread =
  thr_buffer :: "byte list"
  thr_pc :: detect_pc

definition detect_step ::
  "fp_arith \<Rightarrow> sentinelfs_context_t \<Rightarrow> detect_thread \<Rightarrow> world \<Rightarrow> detect_thread \<times> world" where
  "detect_step fp global_ctx t w =
     (case thr_pc t of
        LoadTotal \<Rightarrow> (t\<lparr>thr_pc := StoreTotal (total_writes (stats w))\<rparr>, w)
      | StoreTotal r \<Rightarrow>
          (t\<lparr>thr_pc := Inspect\<rparr>, w\<lparr>stats := (stats w)\<lparr>total_writes := r + 1\<rparr>\<rparr>)
      | Inspect \<Rightarrow>
          (let (whitelisted, w2) = is_whitelisted_file global_ctx (thr_buffer t) w
           in if whitelisted \<noteq> 0 then (t\<lparr>thr_pc := Returned 0\<rparr>, w2)
              else if calculate_entropy fp (thr_buffer t) > ENTROPY_THRESHOLD
                   then (t\<lparr>thr_pc := LoadBlocked\<rparr>, w2)
                   else (t\<lparr>thr_pc := Returned 0\<rparr>, w2))
      | LoadBlocked \<Rightarrow> (t\<lparr>thr_pc := StoreBlocked (blocked_writes (stats w))\<rparr>, w)
      | StoreBlocked r \<Rightarrow>
          (t\<lparr>thr_pc := Report\<rparr>, w\<lparr>stats := (stats w)\<lparr>blocked_writes := r + 1\<rparr>\<rparr>)
      | Report \<Rightarrow>
          (t\<lparr>thr_pc := Returned (- EIO)\<rparr>,
           fprintf_stderr
             (RansomwareDetected (calculate_entropy fp (thr_buffer t)) ENTROPY_THRESHOLD) w)
      | Returned r \<Rightarrow> (t, w))"

definition enter_detect :: "byte list \<Rightarrow> detect_thread" where
  "enter_detect buffer = \<lparr>thr_buffer = buffer, thr_pc = LoadTotal\<rparr>"

fun run_schedule ::
  "fp_arith \<Rightarrow> sentinelfs_context_t \<Rightarrow> nat list \<Rightarrow> detect_thread list \<times> world
     \<Rightarrow> detect_thread list \<times> world" where
  "run_schedule fp global_ctx [] (ts, w) = (ts, w)"
| "run_schedule fp global_ctx (i # sched) (ts, w) =
     (if i < length ts
      then (let (t', w') = detect_step fp global_ctx (ts ! i) w
            in run_schedule fp global_ctx sched (ts[i := t'], w'))
      else run_schedule fp global_ctx sched (ts, w))"

subsection \<open>The write and create operations\<close>

text \<open>
  The first block of \<open>sentinelfs_write\<close>: a backup attempt before a write at offset 0
  to a file that exists and is not empty. The result of \<open>create_jit_backup\<close> is dropped.
\<close>

definition jit_backup_phase ::
  "sentinelfs_context_t \<Rightarrow> path \<Rightarrow> int \<Rightarrow> world \<Rightarrow> world" where
  "jit_backup_phase global_ctx full_path offset w =
     (if offset = 0
      then (case stat w full_path of
              Inr st_size \<Rightarrow>
                if st_size > 0 then snd (create_jit_backup global_ctx full_path w) else w
            | Inl errno \<Rightarrow> w)
      else w)"

definition sentinelfs_write ::
  "fp_arith \<Rightarrow> sentinelfs_context_t \<Rightarrow> path \<Rightarrow> byte list \<Rightarrow> int \<Rightarrow> world
     \<Rightarrow> int \<times> world" where
  "sentinelfs_write fp global_ctx path buf offset w =
     (let full_path = translate_path global_ctx path;
          w1 = jit_backup_phase global_ctx full_path offset w;
          (detection_result, w2) = detect_ransomware fp global_ctx buf w1
      in if detection_result \<noteq> 0 then (detection_result, w2)
         else (case open_wronly w2 full_path of
                 Inl errno \<Rightarrow> (- errno, w2)
               | Inr (fd, w3) \<Rightarrow>
                   (case pwrite w3 fd buf offset of
                      Inl errno \<Rightarrow> (- errno, close_fd fd w3)
                    | Inr (res, w4) \<Rightarrow> (res, close_fd fd w4))))"

definition sentinelfs_create ::
  "sentinelfs_context_t \<Rightarrow> path \<Rightarrow> world \<Rightarrow> int \<times> world" where
  "sentinelfs_create global_ctx path w =
     (let full_path = translate_path global_ctx path
      in case creat w full_path of
           Inl errno \<Rightarrow> (- errno, w)
         | Inr (fd, w1) \<Rightarrow> (0, close_fd fd w1))"

subsection \<open>Start-up\<close>

text \<open>
  The error of looking up a path that names no file in a tree of regular files:
  \<open>ENOTDIR\<close> when the path runs through a regular file, \<open>ENOENT\<close> otherwise. \<open>pre\<close> is
  the part of the path already walked.
\<close>

fun lookup_errno :: "(path \<Rightarrow> byte list option) \<Rightarrow> path \<Rightarrow> path \<Rightarrow> int" where
  "lookup_errno fs pre [] = ENOENT"
| "lookup_errno fs pre (c # cs) =
     (if c = CHR ''/'' \<and> fs pre \<noteq> None then ENOTDIR
      else lookup_errno fs (pre @ [c]) cs)"

text \<open>
  \<open>main\<close> fills the context: the storage path as \<open>realpath\<close> returned it, the backup
  path below it, and (in \<open>sentinelfs_init\<close>) the libmagic handle. The counters start
  at 0. \<open>world_with fs\<close> is the world at that moment over the files \<open>fs\<close>: every
  directory the paths need is there and can be written, so that the system refuses a
  path only when it runs through a regular file; the storage has no faults.
\<close>

definition make_context :: "string \<Rightarrow> (byte list \<Rightarrow> string option) \<Rightarrow> sentinelfs_context_t" where
  "make_context storage magic =
     \<lparr>storage_path = storage,
      backup_path = snprintf MAX_PATH (storage @ ''/'' @ BACKUP_DIR),
      magic_cookie = magic\<rparr>"

definition initial_stats :: stats_t where
  "initial_stats = \<lparr>total_writes = 0, blocked_writes = 0, backups_created = 0\<rparr>"

definition world_with :: "(path \<Rightarrow> byte list option) \<Rightarrow> world" where
  "world_with fs =
     \<lparr>stats = initial_stats, stderr = [], files = fs, tv_sec = 1700000000,
      denied = (\<lambda>p. lookup_errno fs [] p = ENOTDIR), errno_of = lookup_errno fs [],
      read_limit = (\<lambda>p. None), write_limit = (\<lambda>p. None), open_files = []\<rparr>"

text \<open>Three classifiers: one that fails, and two that answer with a fixed media type.\<close>

definition magic_fails :: "byte list \<Rightarrow> string option" where
  "magic_fails buffer = None"

definition magic_octet_stream :: "byte list \<Rightarrow> string option" where
  "magic_octet_stream buffer = Some ''application/octet-stream''"

definition magic_pdf_like :: "byte list \<Rightarrow> string option" where
  "magic_pdf_like buffer = Some ''application/pdf-extension''"

text \<open>
  A storage path of 4090 characters: sixteen directories with names of 254 characters,
  then \<open>storage00\<close>.
\<close>

definition deep_storage :: string where
  "deep_storage = concat (replicate 16 (CHR ''/'' # replicate 254 CHR ''d'')) @ ''/storage00''"

text \<open>A world whose write counter has reached \<open>ULONG_MAX\<close>, one write having been blocked.\<close>

definition world_at_wrap :: world where
  "world_at_wrap =
     (world_with Map.empty)
       \<lparr>stats := \<lparr>total_writes = - 1, blocked_writes = 1, backups_created = 0\<rparr>\<rparr>"

text \<open>
  A storage tree \<open>/srv/storage\<close> whose classifier calls everything
  \<open>application/octet-stream\<close>, and worlds that hold one file.
\<close>

definition storage_ctx :: sentinelfs_context_t where
  "storage_ctx = make_context ''/srv/storage'' magic_octet_stream"

definition world_with_file :: "path \<Rightarrow> byte list \<Rightarrow> world" where
  "world_with_file p d = world_with (\<lambda>q. if q = p then Some d else None)"


text \<open>
  The file \<open>doc.txt\<close> holds \<open>hello\<close>. In the first world the device takes two bytes of
  any file and no more; in the second every file gives a read error after one byte.
\<close>

definition world_short_write :: world where
  "world_short_write =
     (world_with_file ''/srv/storage/doc.txt'' [0x68, 0x65, 0x6C, 0x6C, 0x6F])
       \<lparr>write_limit := (\<lambda>p. Some 2)\<rparr>"

definition world_read_error :: world where
  "world_read_error =
     (world_with_file ''/srv/storage/doc.txt'' [0x68, 0x65, 0x6C, 0x6C, 0x6F])
       \<lparr>read_limit := (\<lambda>p. Some 1)\<rparr>"

subsection \<open>Doubles\<close>

text \<open>
  The finite values of the binary64 format: an integer of at most 53 bits times a power
  of two, the exponent between that of the smallest subnormal and that of the largest
  finite value. An arithmetic is \<open>double_valued\<close> when every operation returns such a
  value.
\<close>

definition binary64 :: "real set" where
  "binary64 =
     {x. \<exists>m e :: int. x = of_int m * 2 powr of_int e \<and> \<bar>m\<bar> < 2 ^ 53
                       \<and> - 1074 \<le> e \<and> e \<le> 971}"



text \<open>
  Arithmetic without rounding. On a buffer whose counts and length are powers of two,
  such as \<open>all_bytes\<close> below or a buffer of one repeated byte, every value
  \<open>calculate_entropy\<close> meets is a double and binary64 arithmetic returns the same.
\<close>

definition exact_arith :: fp_arith where
  "exact_arith =
     \<lparr>fp_of_ulong = real, fp_div = (/), fp_log2 = log 2, fp_mul = (*), fp_sub = (-)\<rparr>"

subsection \<open>The entropy formula of the specification\<close>

text \<open>
  The specification's words: \<open>H = - \<Sum> (count\<^sub>i / n) \<sqdot> log\<^sub>2 (count\<^sub>i / n)\<close> over the byte
  values with a positive count, \<open>n\<close> being the length of the buffer. \<open>entropy_term\<close>
  is one summand, 0 for a byte value that does not occur.
\<close>

definition entropy_term :: "nat \<Rightarrow> nat \<Rightarrow> real" where
  "entropy_term c n = (if c > 0 then (real c / real n) * log 2 (real c / real n) else 0)"



text \<open>A buffer in which each of the 256 byte values occurs once.\<close>

definition all_bytes :: "byte list" where
  "all_bytes = map of_nat [0..<256]"


section \<open>Properties\<close>

subsection \<open>Strings and the safe-list\<close>

lemma take_eq_prefix: "take (length n) h = n \<longleftrightarrow> prefix n h"
proof
  assume "take (length n) h = n"
  then show "prefix n h" by (metis take_is_prefix)
next
  assume "prefix n h"
  then show "take (length n) h = n" by (auto simp: prefix_def)
qed

text \<open>\<open>strstr(mime, t) == mime\<close> holds exactly when \<open>t\<close> is a prefix of \<open>mime\<close>.\<close>

lemma strstr_prefix: "strstr h n = Some 0 \<longleftrightarrow> prefix n h"
proof (cases h)
  case Nil
  then show ?thesis by auto
next
  case (Cons c cs)
  then show ?thesis using take_eq_prefix [of n h] by auto
qed

lemma whitelist_loop_iff: "whitelist_loop mime ts \<longleftrightarrow> (\<exists>t \<in> set ts. prefix t mime)"
  by (induction ts) (auto simp: strstr_prefix)

lemma is_whitelisted_file_result:
  "fst (is_whitelisted_file global_ctx buffer w) =
     (case magic_cookie global_ctx buffer of
        None \<Rightarrow> 0
      | Some mime \<Rightarrow>
          if (\<exists>t \<in> set safe_types. prefix t mime)
             \<or> (length buffer \<ge> 2 \<and> buffer ! 0 = 0x23 \<and> buffer ! 1 = 0x21)
          then 1 else 0)"
  by (simp add: is_whitelisted_file_def whitelist_loop_iff split: option.splits)

text \<open>
  C1 (as stated, refuted). A buffer \<open>#!\<close> is not whitelisted when the classifier fails:
  \<open>is_whitelisted_file\<close> returns 0 at the \<open>!mime\<close> test, before the shebang test.
\<close>

theorem shebang_classifier_failure_counterexample:
  "length [0x23, 0x21 :: byte] \<ge> 2
   \<and> [0x23, 0x21 :: byte] ! 0 = 0x23 \<and> [0x23, 0x21 :: byte] ! 1 = 0x21
   \<and> magic_cookie (make_context ''/srv/storage'' magic_fails) [0x23, 0x21] = None
   \<and> is_whitelisted_file (make_context ''/srv/storage'' magic_fails) [0x23, 0x21]
         (world_with Map.empty)
       = (0, fprintf_stderr LibMagicError (world_with Map.empty))"
  by (simp add: is_whitelisted_file_def make_context_def magic_fails_def)

text \<open>
  C1 (amended). For a buffer of at least 2 bytes that begins with \<open>#!\<close>,
  \<open>is_whitelisted_file\<close> returns 1 whenever the classifier returns a media type,
  whatever that type is; when the classifier returns none it prints the libmagic
  diagnostic and returns 0.
\<close>

theorem shebang_after_classifier:
  assumes "length buffer \<ge> 2" and "buffer ! 0 = 0x23" and "buffer ! 1 = 0x21"
  shows "(magic_cookie global_ctx buffer \<noteq> None
            \<longrightarrow> is_whitelisted_file global_ctx buffer w = (1, w))
       \<and> (magic_cookie global_ctx buffer = None
            \<longrightarrow> is_whitelisted_file global_ctx buffer w
                  = (0, fprintf_stderr LibMagicError w))"
  using assms by (auto simp: is_whitelisted_file_def)

theorem shebang_after_classifier_witness:
  "length [0x23, 0x21, 0x2F, 0x2A :: byte] \<ge> 2
   \<and> magic_cookie (make_context ''/srv/storage'' magic_octet_stream)
        [0x23, 0x21, 0x2F, 0x2A] \<noteq> None
   \<and> is_whitelisted_file (make_context ''/srv/storage'' magic_octet_stream)
        [0x23, 0x21, 0x2F, 0x2A] (world_with Map.empty) = (1, world_with Map.empty)
   \<and> magic_cookie (make_context ''/srv/storage'' magic_fails)
        [0x23, 0x21, 0x2F, 0x2A] = None
   \<and> is_whitelisted_file (make_context ''/srv/storage'' magic_fails)
        [0x23, 0x21, 0x2F, 0x2A] (world_with Map.empty)
       = (0, fprintf_stderr LibMagicError (world_with Map.empty))"
  using shebang_after_classifier
          [of "[0x23, 0x21, 0x2F, 0x2A]"
              "make_context ''/srv/storage'' magic_octet_stream" "world_with Map.empty"]
        shebang_after_classifier
          [of "[0x23, 0x21, 0x2F, 0x2A]"
              "make_context ''/srv/storage'' magic_fails" "world_with Map.empty"]
  by (simp add: make_context_def magic_octet_stream_def magic_fails_def)

text \<open>
  C2 (as stated, refuted). The media type \<open>application/pdf-extension\<close> is none of the
  four strings of rule (b) and does not begin with \<open>text/\<close>, the buffer does not begin
  with \<open>#!\<close>, and \<open>is_whitelisted_file\<close> returns 1: the loop compares by prefix.
\<close>

theorem equality_match_counterexample:
  "magic_cookie (make_context ''/srv/storage'' magic_pdf_like) [0x00]
     = Some ''application/pdf-extension''
   \<and> ''application/pdf-extension'' \<noteq> ''application/pdf''
   \<and> ''application/pdf-extension'' \<noteq> ''application/x-executable''
   \<and> ''application/pdf-extension'' \<noteq> ''application/x-sharedlib''
   \<and> ''application/pdf-extension'' \<noteq> ''application/x-shellscript''
   \<and> \<not> prefix ''text/'' ''application/pdf-extension''
   \<and> \<not> length [0x00 :: byte] \<ge> 2
   \<and> is_whitelisted_file (make_context ''/srv/storage'' magic_pdf_like) [0x00]
         (world_with Map.empty) = (1, world_with Map.empty)"
  by (simp add: is_whitelisted_file_def make_context_def magic_pdf_like_def safe_types_def)

text \<open>
  C2 (amended). If the media type begins with none of the five strings of
  \<open>safe_types\<close> and the buffer does not begin with \<open>#!\<close>, \<open>is_whitelisted_file\<close>
  returns 0: every entry of the list, rule (b) included, is matched as a prefix.
\<close>

theorem no_prefix_no_shebang_unsafe:
  assumes "magic_cookie global_ctx buffer = Some mime"
    and "\<not> prefix ''text/'' mime"
    and "\<not> prefix ''application/pdf'' mime"
    and "\<not> prefix ''application/x-executable'' mime"
    and "\<not> prefix ''application/x-sharedlib'' mime"
    and "\<not> prefix ''application/x-shellscript'' mime"
    and "\<not> (length buffer \<ge> 2 \<and> buffer ! 0 = 0x23 \<and> buffer ! 1 = 0x21)"
  shows "is_whitelisted_file global_ctx buffer w = (0, w)"
  using assms
  by (simp add: is_whitelisted_file_def whitelist_loop_iff safe_types_def)

theorem no_prefix_no_shebang_unsafe_witness:
  "magic_cookie (make_context ''/srv/storage'' magic_octet_stream) [0x00, 0x01]
     = Some ''application/octet-stream''
   \<and> \<not> prefix ''text/'' ''application/octet-stream''
   \<and> \<not> prefix ''application/pdf'' ''application/octet-stream''
   \<and> \<not> prefix ''application/x-executable'' ''application/octet-stream''
   \<and> \<not> prefix ''application/x-sharedlib'' ''application/octet-stream''
   \<and> \<not> prefix ''application/x-shellscript'' ''application/octet-stream''
   \<and> \<not> (length [0x00, 0x01 :: byte] \<ge> 2 \<and> [0x00, 0x01 :: byte] ! 0 = 0x23
          \<and> [0x00, 0x01 :: byte] ! 1 = 0x21)
   \<and> is_whitelisted_file (make_context ''/srv/storage'' magic_octet_stream) [0x00, 0x01]
         (world_with Map.empty) = (0, world_with Map.empty)"
  using no_prefix_no_shebang_unsafe
          [of "make_context ''/srv/storage'' magic_octet_stream" "[0x00, 0x01]"
              "''application/octet-stream''" "world_with Map.empty"]
  by (simp add: make_context_def magic_octet_stream_def)

subsection \<open>Path translation\<close>

lemma length_deep_storage: "length deep_storage = 4090"
  by (simp add: deep_storage_def length_concat sum_list_replicate)

text \<open>
  C3 (as stated, refuted). With a storage path of 4090 characters, the virtual path
  \<open>/secret.bin\<close> gives a concatenation of 4101 characters; \<open>translate_path\<close> does not
  fail, it yields the first 4095 of them, a path that ends in \<open>/secr\<close>.
\<close>

theorem translate_truncates_counterexample:
  "length (storage_path (make_context deep_storage magic_fails) @ ''/secret.bin'') > 4096
   \<and> translate_path (make_context deep_storage magic_fails) ''/secret.bin''
       = deep_storage @ ''/secr''"
  by (simp add: translate_path_def make_context_def snprintf_def MAX_PATH_def
        length_deep_storage)

text \<open>
  C3 (amended). \<open>translate_path\<close> has no error result. When the concatenation of the
  storage path and the virtual path, with its terminating NUL, does not fit in
  \<open>MAX_PATH\<close> = 4096 bytes, the concrete path is the concatenation cut to its first
  4095 characters; when it fits, the concrete path is the concatenation.
\<close>

theorem translate_path_truncation:
  "(length (storage_path global_ctx @ path) \<ge> MAX_PATH
      \<longrightarrow> length (translate_path global_ctx path) = 4095
          \<and> strict_prefix (translate_path global_ctx path) (storage_path global_ctx @ path))
   \<and> (length (storage_path global_ctx @ path) < MAX_PATH
      \<longrightarrow> translate_path global_ctx path = storage_path global_ctx @ path)"
proof -
  let ?full = "storage_path global_ctx @ path"
  have "prefix (take 4095 ?full) ?full"
    by (rule take_is_prefix)
  moreover have "length ?full \<ge> 4096 \<Longrightarrow> take 4095 ?full \<noteq> ?full"
  proof
    assume "length ?full \<ge> 4096" and "take 4095 ?full = ?full"
    then have "length (take 4095 ?full) \<ge> 4096" by simp
    then show False by simp
  qed
  ultimately show ?thesis
    by (auto simp: translate_path_def snprintf_def MAX_PATH_def strict_prefix_def)
qed

theorem translate_path_truncation_witness:
  "length (storage_path (make_context deep_storage magic_fails) @ ''/secret.bin'')
     \<ge> MAX_PATH
   \<and> length (translate_path (make_context deep_storage magic_fails) ''/secret.bin'')
       = 4095
   \<and> length (storage_path (make_context ''/srv/storage'' magic_fails) @ ''/hello.txt'')
       < MAX_PATH
   \<and> translate_path (make_context ''/srv/storage'' magic_fails) ''/hello.txt''
       = ''/srv/storage/hello.txt''"
  using translate_path_truncation
          [of "make_context deep_storage magic_fails" "''/secret.bin''"]
        translate_path_truncation
          [of "make_context ''/srv/storage'' magic_fails" "''/hello.txt''"]
  by (simp add: make_context_def MAX_PATH_def length_deep_storage)

subsection \<open>The worlds of the examples\<close>

lemma lookup_errno_clear:
  assumes "\<forall>q. prefix pre q \<and> strict_prefix q (pre @ cs) \<longrightarrow> fs q = None"
  shows "lookup_errno fs pre cs = ENOENT"
  using assms
proof (induction cs arbitrary: pre)
  case Nil
  then show ?case by simp
next
  case (Cons c cs)
  have "strict_prefix pre (pre @ c # cs)" by (simp add: strict_prefix_def)
  then have here: "fs pre = None" using Cons.prems by blast
  have "\<forall>q. prefix (pre @ [c]) q \<and> strict_prefix q ((pre @ [c]) @ cs) \<longrightarrow> fs q = None"
  proof (intro allI impI)
    fix q assume q: "prefix (pre @ [c]) q \<and> strict_prefix q ((pre @ [c]) @ cs)"
    then have "prefix pre q" by (meson append_prefixD)
    then show "fs q = None" using q Cons.prems by simp
  qed
  then have "lookup_errno fs (pre @ [c]) cs = ENOENT" by (rule Cons.IH)
  then show ?case using here by simp
qed

lemma lookup_errno_one_file:
  "\<not> strict_prefix f p \<Longrightarrow> lookup_errno (\<lambda>q. if q = f then Some d else None) [] p = ENOENT"
  by (rule lookup_errno_clear) auto

lemma lookup_errno_no_file: "lookup_errno (\<lambda>q. None) [] p = ENOENT"
  by (rule lookup_errno_clear) auto

lemma world_with_fields:
  "stats (world_with fs) = initial_stats"
  "stderr (world_with fs) = []"
  "files (world_with fs) = fs"
  "tv_sec (world_with fs) = 1700000000"
  "read_limit (world_with fs) q = None"
  "write_limit (world_with fs) q = None"
  "open_files (world_with fs) = []"
  by (simp_all add: world_with_def)

lemma world_with_no_file:
  "\<not> denied (world_with Map.empty) p"
  "errno_of (world_with Map.empty) p = ENOENT"
  by (simp_all add: world_with_def lookup_errno_no_file ENOENT_def ENOTDIR_def)

lemma world_with_file_fields:
  "stats (world_with_file f d) = initial_stats"
  "stderr (world_with_file f d) = []"
  "files (world_with_file f d) q = (if q = f then Some d else None)"
  "tv_sec (world_with_file f d) = 1700000000"
  "read_limit (world_with_file f d) q = None"
  "write_limit (world_with_file f d) q = None"
  "open_files (world_with_file f d) = []"
  by (simp_all add: world_with_file_def world_with_def)

lemma world_with_file_path:
  assumes "\<not> strict_prefix f p"
  shows "\<not> denied (world_with_file f d) p"
    and "errno_of (world_with_file f d) p = ENOENT"
  using lookup_errno_one_file [OF assms, of d]
  by (simp_all add: world_with_file_def world_with_def ENOENT_def ENOTDIR_def)

subsection \<open>Entropy without rounding\<close>

lemma unat_byte_less: "unat (b::byte) < 256"
  using unsigned_less [of b, where 'a=nat] by simp

lemma byte_of_unat: "i < 256 \<Longrightarrow> unat (of_nat i :: byte) = i"
  by (simp add: unat_of_nat)

lemma byte_index: "i < 256 \<Longrightarrow> (i = unat (b::byte)) = (b = of_nat i)"
  using byte_of_unat by fastforce

lemma count_fold:
  "length cs = 256 \<Longrightarrow> i < 256 \<Longrightarrow>
   fold (\<lambda>b counts. counts[unat b := counts ! unat b + 1]) buffer cs ! i
     = cs ! i + count_list buffer (of_nat i :: byte)"
proof (induction buffer arbitrary: cs)
  case Nil
  then show ?case by simp
next
  case (Cons b bs)
  have lt: "unat b < 256" by (rule unat_byte_less)
  have idx: "(unat b = i) = (b = of_nat i)"
    using byte_index [OF Cons.prems(2), of b] by auto
  let ?cs' = "cs[unat b := cs ! unat b + 1]"
  have "fold (\<lambda>b counts. counts[unat b := counts ! unat b + 1]) (b # bs) cs ! i
          = ?cs' ! i + count_list bs (of_nat i :: byte)"
    using Cons.IH [of ?cs'] Cons.prems by simp
  also have "?cs' ! i = cs ! i + (if b = of_nat i then 1 else 0)"
    using Cons.prems lt idx by (auto simp: nth_list_update byte_of_unat)
  finally show ?case by simp
qed

lemma count_frequencies_nth:
  "count_frequencies buffer ! unat v = count_list buffer v"
  using count_fold [of "replicate 256 0" "unat v" buffer] unat_byte_less [of v]
  by (simp add: count_frequencies_def)

lemma fold_entropy_step:
  "fold (entropy_step exact_arith counts len) xs a = a - (\<Sum>i\<leftarrow>xs. entropy_term (counts ! i) len)"
  by (induction xs arbitrary: a) (auto simp: entropy_step_def entropy_term_def exact_arith_def Let_def)

lemma range_unat_byte: "unat ` (UNIV :: byte set) = {0..<256}"
proof
  show "unat ` (UNIV :: byte set) \<subseteq> {0..<256}"
    using unat_byte_less by auto
  show "{0..<256} \<subseteq> unat ` (UNIV :: byte set)"
  proof
    fix i :: nat assume "i \<in> {0..<256}"
    then have "unat (of_nat i :: byte) = i" by (simp add: byte_of_unat)
    then show "i \<in> unat ` (UNIV :: byte set)" by (metis rangeI)
  qed
qed

lemma inj_unat_byte: "inj (unat :: byte \<Rightarrow> nat)"
  by (rule injI) (simp add: word_unat_eq_iff)

lemma exact_entropy_sum_all:
  assumes "buffer \<noteq> []"
  shows "calculate_entropy exact_arith buffer
           = - (\<Sum>v\<in>(UNIV :: byte set). entropy_term (count_list buffer v) (length buffer))"
proof -
  let ?n = "length buffer"
  let ?cs = "count_frequencies buffer"
  have "calculate_entropy exact_arith buffer = - (\<Sum>i\<leftarrow>[0..<256]. entropy_term (?cs ! i) ?n)"
    using assms by (simp add: calculate_entropy_def fold_entropy_step)
  also have "(\<Sum>i\<leftarrow>[0..<256]. entropy_term (?cs ! i) ?n) = (\<Sum>i\<in>{0..<256}. entropy_term (?cs ! i) ?n)"
    by (simp add: interv_sum_list_conv_sum_set_nat)
  also have "\<dots> = (\<Sum>i\<in>unat ` (UNIV :: byte set). entropy_term (?cs ! i) ?n)"
    by (simp only: range_unat_byte)
  also have "\<dots> = (\<Sum>v\<in>(UNIV :: byte set). entropy_term (?cs ! unat v) ?n)"
    using inj_unat_byte by (simp add: sum.reindex)
  finally show ?thesis by (simp add: count_frequencies_nth)
qed







lemma sum_count_bytes: "(\<Sum>v\<in>(UNIV :: byte set). count_list buffer v) = length buffer"
  by (rule sum_count_set) auto






lemma exact_entropy_single:
  assumes "set buffer \<subseteq> {x}"
  shows "calculate_entropy exact_arith buffer = 0"
proof (cases "buffer = []")
  case True
  then show ?thesis by (simp add: calculate_entropy_def)
next
  case False
  let ?n = "length buffer"
  have n: "?n > 0" using False by simp
  have other: "count_list buffer v = 0" if "v \<noteq> x" for v
    using assms that by (auto simp: count_list_0_iff)
  have "(\<Sum>v\<in>(UNIV :: byte set). count_list buffer v) = (\<Sum>v\<in>{x}. count_list buffer v)"
    by (rule sum.mono_neutral_right) (auto simp: other)
  then have cx: "count_list buffer x = ?n" by (simp add: sum_count_bytes)
  have "(\<Sum>v\<in>(UNIV :: byte set). entropy_term (count_list buffer v) ?n)
          = (\<Sum>v\<in>{x}. entropy_term (count_list buffer v) ?n)"
    by (rule sum.mono_neutral_right) (auto simp: other entropy_term_def)
  also have "\<dots> = 0" using n by (simp add: cx entropy_term_def)
  finally show ?thesis using False by (simp add: exact_entropy_sum_all)
qed

lemma count_list_distinct: "distinct xs \<Longrightarrow> x \<in> set xs \<Longrightarrow> count_list xs x = 1"
  by (induction xs) (auto simp: count_list_0_iff)

lemma distinct_all_bytes: "distinct all_bytes"
proof -
  have "inj_on (of_nat :: nat \<Rightarrow> byte) {0..<256}"
    by (rule inj_on_inverseI [where g = unat]) (simp add: byte_of_unat)
  then show ?thesis by (simp add: all_bytes_def distinct_map)
qed

lemma set_all_bytes: "v \<in> set all_bytes"
proof -
  have "unat v < 256" by (rule unat_byte_less)
  moreover have "of_nat (unat v) = v" by simp
  ultimately show ?thesis unfolding all_bytes_def by (metis (no_types) atLeastLessThan_iff image_eqI set_map set_upt zero_le)
qed

lemma exact_entropy_all_bytes: "calculate_entropy exact_arith all_bytes = 8"
proof -
  have len: "length all_bytes = 256" by (simp add: all_bytes_def)
  then have ne: "all_bytes \<noteq> []" by auto
  have c: "count_list all_bytes v = 1" for v
    by (rule count_list_distinct [OF distinct_all_bytes set_all_bytes])
  have "log 2 (1 / 256 :: real) = - log 2 (2 ^ 8)" by (simp add: log_divide)
  also have "\<dots> = - 8" by (subst log_pow_cancel) auto
  finally have l: "log 2 (1 / 256 :: real) = - 8" .
  have "entropy_term 1 256 = - (8 / 256)" by (simp add: entropy_term_def l)
  then have "(\<Sum>v\<in>(UNIV :: byte set). entropy_term (count_list all_bytes v) (length all_bytes)) = - 8"
    by (simp add: c len card_word)
  then show ?thesis using ne by (simp add: exact_entropy_sum_all)
qed

subsection \<open>Entropy in double arithmetic\<close>












text \<open>The threshold and the bounds of the entropy are doubles.\<close>

lemma binary64I:
  "\<bar>m\<bar> < 2 ^ 53 \<Longrightarrow> - 1074 \<le> e \<Longrightarrow> e \<le> 971
     \<Longrightarrow> of_int m * 2 powr of_int e \<in> binary64"
  unfolding binary64_def by blast

lemma binary64_values: "0 \<in> binary64" "1 \<in> binary64" "15 / 2 \<in> binary64" "8 \<in> binary64"
proof -
  show "0 \<in> binary64" using binary64I [of 0 0] by simp
  show "1 \<in> binary64" using binary64I [of 1 0] by simp
  show "15 / 2 \<in> binary64" using binary64I [of 15 "- 1"] by (simp add: powr_minus_divide)
  show "8 \<in> binary64" using binary64I [of 1 3] by (simp add: powr_numeral)
qed









subsection \<open>The gate and its counters\<close>

lemma is_whitelisted_file_world:
  "snd (is_whitelisted_file global_ctx buffer w)
     = (if magic_cookie global_ctx buffer = None then fprintf_stderr LibMagicError w else w)"
  by (simp add: is_whitelisted_file_def split: option.splits)

lemma is_whitelisted_file_fst_indep:
  "fst (is_whitelisted_file global_ctx buffer w) = fst (is_whitelisted_file global_ctx buffer w')"
  by (simp add: is_whitelisted_file_result)

text \<open>
  C5. \<open>detect_ransomware\<close> returns \<open>-EIO\<close> and increments \<open>blocked_writes\<close> exactly when
  the buffer is not whitelisted and the entropy that \<open>calculate_entropy\<close> returns for
  it, in whatever arithmetic, is strictly above 7.5; in every other case (that value
  at most 7.5, or a whitelisted buffer whatever its entropy) it returns 0 and leaves
  \<open>blocked_writes\<close> alone; the empty buffer is allowed.
\<close>

theorem gate_blocks_iff:
  "(fst (is_whitelisted_file global_ctx buf w) = 0 \<and> calculate_entropy fp buf > 7.5
      \<longrightarrow> fst (detect_ransomware fp global_ctx buf w) = - EIO
          \<and> blocked_writes (stats (snd (detect_ransomware fp global_ctx buf w)))
              = blocked_writes (stats w) + 1)
   \<and> (\<not> (fst (is_whitelisted_file global_ctx buf w) = 0 \<and> calculate_entropy fp buf > 7.5)
      \<longrightarrow> fst (detect_ransomware fp global_ctx buf w) = 0
          \<and> blocked_writes (stats (snd (detect_ransomware fp global_ctx buf w)))
              = blocked_writes (stats w))
   \<and> fst (detect_ransomware fp global_ctx [] w) = 0"
proof -
  let ?w1 = "w\<lparr>stats := (stats w)\<lparr>total_writes := total_writes (stats w) + 1\<rparr>\<rparr>"
  have f: "fst (is_whitelisted_file global_ctx buf ?w1) = fst (is_whitelisted_file global_ctx buf w)"
    by (rule is_whitelisted_file_fst_indep)
  have s: "blocked_writes (stats (snd (is_whitelisted_file global_ctx buf ?w1))) = blocked_writes (stats w)"
    by (simp add: is_whitelisted_file_world fprintf_stderr_def)
  have e: "calculate_entropy fp [] = 0" by (simp add: calculate_entropy_def)
  show ?thesis
    using f s
    by (auto simp: detect_ransomware_def Let_def split_beta ENTROPY_THRESHOLD_def
                   fprintf_stderr_def EIO_def e)
qed

lemma all_bytes_not_whitelisted:
  "is_whitelisted_file storage_ctx all_bytes w = (0, w)"
  by (simp add: is_whitelisted_file_def storage_ctx_def make_context_def
        magic_octet_stream_def safe_types_def all_bytes_def)

theorem gate_blocks_iff_witness:
  "fst (is_whitelisted_file storage_ctx all_bytes (world_with Map.empty)) = 0
   \<and> calculate_entropy exact_arith all_bytes > 7.5
   \<and> fst (detect_ransomware exact_arith storage_ctx all_bytes (world_with Map.empty)) = - 5
   \<and> blocked_writes (stats (snd (detect_ransomware exact_arith storage_ctx all_bytes
         (world_with Map.empty)))) = 1
   \<and> \<not> (fst (is_whitelisted_file storage_ctx (replicate 4096 0x41) (world_with Map.empty)) = 0
          \<and> calculate_entropy exact_arith (replicate 4096 0x41) > 7.5)
   \<and> fst (detect_ransomware exact_arith storage_ctx (replicate 4096 0x41)
            (world_with Map.empty)) = 0
   \<and> blocked_writes (stats (snd (detect_ransomware exact_arith storage_ctx
         (replicate 4096 0x41) (world_with Map.empty)))) = 0"
proof -
  have a: "fst (is_whitelisted_file storage_ctx all_bytes (world_with Map.empty)) = 0"
    by (simp add: all_bytes_not_whitelisted)
  have b: "calculate_entropy exact_arith all_bytes > 7.5"
    by (simp add: exact_entropy_all_bytes)
  have c: "calculate_entropy exact_arith (replicate 4096 (0x41::byte)) = 0"
    by (rule exact_entropy_single [of _ "0x41"]) simp
  show ?thesis
    using gate_blocks_iff [of storage_ctx all_bytes "world_with Map.empty" exact_arith]
          gate_blocks_iff [of storage_ctx "replicate 4096 0x41" "world_with Map.empty" exact_arith]
          a b c
    by (simp add: EIO_def world_with_def initial_stats_def)
qed

lemma detect_ransomware_stats:
  "stats (snd (detect_ransomware fp global_ctx buf w))
     = (stats w)\<lparr>total_writes := total_writes (stats w) + 1,
                 blocked_writes := blocked_writes (stats w)
                    + (if fst (detect_ransomware fp global_ctx buf w) = 0 then 0 else 1)\<rparr>"
  by (simp add: detect_ransomware_def Let_def split_beta is_whitelisted_file_world
                fprintf_stderr_def EIO_def)

lemma word64_succ_mono:
  fixes b t :: "64 word"
  assumes "b \<le> t" and "t \<noteq> - 1"
  shows "b \<le> t + 1" and "b + 1 \<le> t + 1"
proof -
  have lt: "t < t + 1"
    using assms(2) inc_less_eq_self_iff_eq [of t] by (simp add: not_le)
  with assms(1) show "b \<le> t + 1" by simp
  from assms(1) lt show "b + 1 \<le> t + 1"
    by uint_arith
qed

lemma detect_ransomware_blocks_all_bytes:
  "fst (detect_ransomware exact_arith storage_ctx all_bytes w) = - 5"
  by (simp add: detect_ransomware_def Let_def all_bytes_not_whitelisted
        exact_entropy_all_bytes ENTROPY_THRESHOLD_def EIO_def)

lemma detect_step_simps:
  "detect_step fp global_ctx \<lparr>thr_buffer = b, thr_pc = LoadTotal\<rparr> w
     = (\<lparr>thr_buffer = b, thr_pc = StoreTotal (total_writes (stats w))\<rparr>, w)"
  "detect_step fp global_ctx \<lparr>thr_buffer = b, thr_pc = StoreTotal r\<rparr> w
     = (\<lparr>thr_buffer = b, thr_pc = Inspect\<rparr>,
        w\<lparr>stats := (stats w)\<lparr>total_writes := r + 1\<rparr>\<rparr>)"
  "detect_step fp global_ctx \<lparr>thr_buffer = b, thr_pc = Inspect\<rparr> w
     = (\<lparr>thr_buffer = b,
         thr_pc = (if fst (is_whitelisted_file global_ctx b w) = 0
                      \<and> calculate_entropy fp b > ENTROPY_THRESHOLD
                   then LoadBlocked else Returned 0)\<rparr>,
        snd (is_whitelisted_file global_ctx b w))"
  "detect_step fp global_ctx \<lparr>thr_buffer = b, thr_pc = LoadBlocked\<rparr> w
     = (\<lparr>thr_buffer = b, thr_pc = StoreBlocked (blocked_writes (stats w))\<rparr>, w)"
  "detect_step fp global_ctx \<lparr>thr_buffer = b, thr_pc = StoreBlocked r\<rparr> w
     = (\<lparr>thr_buffer = b, thr_pc = Report\<rparr>,
        w\<lparr>stats := (stats w)\<lparr>blocked_writes := r + 1\<rparr>\<rparr>)"
  "detect_step fp global_ctx \<lparr>thr_buffer = b, thr_pc = Report\<rparr> w
     = (\<lparr>thr_buffer = b, thr_pc = Returned (- EIO)\<rparr>,
        fprintf_stderr (RansomwareDetected (calculate_entropy fp b) ENTROPY_THRESHOLD) w)"
  "detect_step fp global_ctx \<lparr>thr_buffer = b, thr_pc = Returned r'\<rparr> w
     = (\<lparr>thr_buffer = b, thr_pc = Returned r'\<rparr>, w)"
  by (simp_all add: detect_step_def split_beta)

text \<open>
  A thread that takes its six steps with no other thread in between does what
  \<open>detect_ransomware\<close> does.
\<close>

lemma detect_ransomware_alone:
  "run_schedule fp global_ctx [0, 0, 0, 0, 0, 0] ([enter_detect buf], w)
     = ([\<lparr>thr_buffer = buf, thr_pc = Returned (fst (detect_ransomware fp global_ctx buf w))\<rparr>],
        snd (detect_ransomware fp global_ctx buf w))"
proof (cases "fst (is_whitelisted_file global_ctx buf
                (w\<lparr>stats := (stats w)\<lparr>total_writes := total_writes (stats w) + 1\<rparr>\<rparr>)) = 0
              \<and> calculate_entropy fp buf > ENTROPY_THRESHOLD")
  case True
  then show ?thesis
    by (auto simp: detect_step_simps enter_detect_def detect_ransomware_def split_beta
          Let_def is_whitelisted_file_world fprintf_stderr_def)
next
  case False
  then show ?thesis
    by (auto simp: detect_step_simps enter_detect_def detect_ransomware_def split_beta
          Let_def)
qed

text \<open>
  The counters at \<open>ULONG_MAX\<close>: with \<open>total_writes = ULONG_MAX\<close> and \<open>blocked_writes = 1\<close>
  the next write, an allowed one, wraps \<open>total_writes\<close> to 0.
\<close>

lemma counters_wrap_at_ulong_max:
  "blocked_writes (stats world_at_wrap) \<le> total_writes (stats world_at_wrap)
   \<and> total_writes (stats (snd (detect_ransomware fp storage_ctx [] world_at_wrap))) = 0
   \<and> blocked_writes (stats (snd (detect_ransomware fp storage_ctx [] world_at_wrap))) = 1"
proof -
  have "fst (detect_ransomware fp storage_ctx [] world_at_wrap) = 0"
    by (simp add: detect_ransomware_def Let_def split_beta calculate_entropy_def
          ENTROPY_THRESHOLD_def)
  then show ?thesis
    by (simp add: detect_ransomware_stats world_at_wrap_def world_with_def)
qed

text \<open>
  C7 (as stated, refuted). Two writes of a blocked payload are served by two threads,
  the counters at 0. Both threads read \<open>total_writes\<close> before either writes it back, so
  one increment is lost; the increments of \<open>blocked_writes\<close> follow one another. Both
  writes return \<open>-EIO\<close>, and the counters end at \<open>total_writes = 1\<close>,
  \<open>blocked_writes = 2\<close>.
\<close>

theorem counters_lost_update_counterexample:
  "blocked_writes (stats (world_with Map.empty)) \<le> total_writes (stats (world_with Map.empty))
   \<and> map thr_pc (fst (run_schedule exact_arith storage_ctx
          [0, 1, 0, 1, 0, 1, 0, 0, 0, 1, 1, 1]
          ([enter_detect all_bytes, enter_detect all_bytes], world_with Map.empty)))
       = [Returned (- 5), Returned (- 5)]
   \<and> total_writes (stats (snd (run_schedule exact_arith storage_ctx
          [0, 1, 0, 1, 0, 1, 0, 0, 0, 1, 1, 1]
          ([enter_detect all_bytes, enter_detect all_bytes], world_with Map.empty)))) = 1
   \<and> blocked_writes (stats (snd (run_schedule exact_arith storage_ctx
          [0, 1, 0, 1, 0, 1, 0, 0, 0, 1, 1, 1]
          ([enter_detect all_bytes, enter_detect all_bytes], world_with Map.empty)))) = 2
   \<and> \<not> blocked_writes (stats (snd (run_schedule exact_arith storage_ctx
          [0, 1, 0, 1, 0, 1, 0, 0, 0, 1, 1, 1]
          ([enter_detect all_bytes, enter_detect all_bytes], world_with Map.empty))))
        \<le> total_writes (stats (snd (run_schedule exact_arith storage_ctx
          [0, 1, 0, 1, 0, 1, 0, 0, 0, 1, 1, 1]
          ([enter_detect all_bytes, enter_detect all_bytes], world_with Map.empty))))"
  by (simp add: detect_step_simps enter_detect_def all_bytes_not_whitelisted
        exact_entropy_all_bytes ENTROPY_THRESHOLD_def EIO_def fprintf_stderr_def
        world_with_def initial_stats_def word_le_nat_alt)

text \<open>
  C7 (amended). A write whose counter updates no other thread interleaves with, and
  that starts with \<open>blocked_writes \<le> total_writes\<close> and with \<open>total_writes\<close> below
  \<open>ULONG_MAX\<close>, ends with \<open>blocked_writes \<le> total_writes\<close>: \<open>total_writes\<close> goes up by
  one, \<open>blocked_writes\<close> by one when the write is blocked and by nothing otherwise.
\<close>

theorem counters_invariant_step:
  assumes "blocked_writes (stats w) \<le> total_writes (stats w)"
    and "total_writes (stats w) \<noteq> - 1"
  shows "blocked_writes (stats (snd (detect_ransomware fp global_ctx buf w)))
           \<le> total_writes (stats (snd (detect_ransomware fp global_ctx buf w)))
       \<and> total_writes (stats (snd (detect_ransomware fp global_ctx buf w)))
           = total_writes (stats w) + 1
       \<and> blocked_writes (stats (snd (detect_ransomware fp global_ctx buf w)))
           = blocked_writes (stats w)
              + (if fst (detect_ransomware fp global_ctx buf w) = 0 then 0 else 1)"
  using word64_succ_mono [OF assms]
  by (simp add: detect_ransomware_stats)

theorem counters_invariant_step_witness:
  "blocked_writes (stats (world_with Map.empty)) \<le> total_writes (stats (world_with Map.empty))
   \<and> total_writes (stats (world_with Map.empty)) \<noteq> - 1
   \<and> total_writes (stats (snd (detect_ransomware exact_arith storage_ctx all_bytes
         (world_with Map.empty)))) = 1
   \<and> blocked_writes (stats (snd (detect_ransomware exact_arith storage_ctx all_bytes
         (world_with Map.empty)))) = 1"
  using counters_invariant_step [of "world_with Map.empty" exact_arith storage_ctx all_bytes]
  by (simp add: detect_ransomware_blocks_all_bytes world_with_def initial_stats_def)

subsection \<open>The backup copy\<close>

lemma fwrite_eq:
  "files w dst = Some old \<Longrightarrow>
   fwrite buffer dst w
     = w\<lparr>files := (files w)(dst \<mapsto> old @ device_takes (write_limit w dst) (length old) buffer)\<rparr>"
  by (simp add: fwrite_def)

lemma device_takes_append:
  "device_takes limit used a @ device_takes limit (used + length (device_takes limit used a)) b
     = device_takes limit used (a @ b)"
  by (cases limit) (auto simp: device_takes_def min_def)

lemma copy_loop_Nil: "copy_loop [] dst w = w"
  by (simp add: copy_loop.simps [of "[]"] fread_def)

lemma copy_loop_step:
  "src \<noteq> [] \<Longrightarrow> copy_loop src dst w = copy_loop (drop 8192 src) dst (fwrite (take 8192 src) dst w)"
  by (subst copy_loop.simps) (simp add: fread_def)


lemma copy_loop_eq:
  "files w dst = Some old \<Longrightarrow>
   copy_loop src dst w
     = w\<lparr>files := (files w)(dst \<mapsto> old @ device_takes (write_limit w dst) (length old) src)\<rparr>"
proof (induction src arbitrary: w old rule: length_induct)
  case (1 src)
  show ?case
  proof (cases "src = []")
    case True
    have "(files w)(dst \<mapsto> old) = files w"
      using "1.prems" by (simp add: fun_upd_idem)
    then show ?thesis
      using True by (cases "write_limit w dst") (simp_all add: copy_loop_Nil device_takes_def)
  next
    case False
    let ?chunk = "take 8192 src"
    let ?rest = "drop 8192 src"
    let ?L = "write_limit w dst"
    let ?old' = "old @ device_takes ?L (length old) ?chunk"
    let ?w' = "w\<lparr>files := (files w)(dst \<mapsto> ?old')\<rparr>"
    have w': "fwrite ?chunk dst w = ?w'"
      using "1.prems" by (rule fwrite_eq)
    have f: "files ?w' dst = Some ?old'" by simp
    have shorter: "length ?rest < length src" using False by simp
    have app: "device_takes ?L (length old) ?chunk @ device_takes ?L (length ?old') ?rest
                 = device_takes ?L (length old) src"
      using device_takes_append [of ?L "length old" ?chunk ?rest] by simp
    have "copy_loop src dst w = copy_loop ?rest dst ?w'"
      using copy_loop_step [OF False, of dst w] w' by simp
    also have "\<dots> = ?w'\<lparr>files := (files ?w')(dst \<mapsto> ?old' @ device_takes (write_limit ?w' dst) (length ?old') ?rest)\<rparr>"
      using "1.IH" shorter f by blast
    also have "\<dots> = w\<lparr>files := (files w)(dst \<mapsto> old @ device_takes ?L (length old) src)\<rparr>"
      using app by simp
    finally show ?thesis .
  qed
qed


lemmas libc_defs = stat_def fopen_rb_def fopen_wb_def fclose_def fprintf_stderr_def

lemma copy_loop_fresh:
  "files w dst = Some [] \<Longrightarrow>
   copy_loop src dst w = w\<lparr>files := (files w)(dst \<mapsto> device_takes (write_limit w dst) 0 src)\<rparr>"
  using copy_loop_eq [of w dst "[]" src] by simp



lemma create_jit_backup_skip:
  assumes "files w p = Some d" and "int (length d) > JIT_BACKUP_MAX_SIZE"
  shows "create_jit_backup global_ctx p w = (0, fprintf_stderr (SkippingBackup p) w)"
  using assms by (simp add: create_jit_backup_def stat_def)

lemma create_jit_backup_copy:
  assumes "files w p = Some d" and "int (length d) \<le> JIT_BACKUP_MAX_SIZE"
    and "\<not> denied w p" and "\<not> denied w (get_backup_path global_ctx p w)"
  shows "fst (create_jit_backup global_ctx p w) = 0"
    and "files (snd (create_jit_backup global_ctx p w))
           = (files w)(get_backup_path global_ctx p w \<mapsto>
                device_takes (write_limit w (get_backup_path global_ctx p w)) 0
                  (stream_data (w\<lparr>files := (files w)(get_backup_path global_ctx p w \<mapsto> [])\<rparr>) p))"
    and "stats (snd (create_jit_backup global_ctx p w))
           = (stats w)\<lparr>backups_created := backups_created (stats w) + 1\<rparr>"
    and "stderr (snd (create_jit_backup global_ctx p w))
           = stderr w @ [BackupCreated p (get_backup_path global_ctx p w)]"
  using assms
  by (auto simp: create_jit_backup_def libc_defs Let_def copy_loop_fresh stream_data_def
           split: option.splits sum.splits)

lemma backup_path_doc:
  "get_backup_path storage_ctx ''/srv/storage/doc.txt'' (world_with_file p d)
     = ''/srv/storage/.sentinelfs_backups/doc.txt.1700000000.backup''"
  by (simp add: get_backup_path_def storage_ctx_def make_context_def world_with_file_fields
        snprintf_def MAX_PATH_def BACKUP_DIR_def dec_long_def dec_nat.simps)

lemma doc_not_denied:
  "\<not> denied (world_with_file ''/srv/storage/doc.txt'' d) ''/srv/storage/doc.txt''"
  "\<not> denied (world_with_file ''/srv/storage/doc.txt'' d)
       ''/srv/storage/.sentinelfs_backups/doc.txt.1700000000.backup''"
  by (rule world_with_file_path, simp)+

text \<open>
  C8. On an existing file of \<open>JIT_BACKUP_MAX_SIZE + 1\<close> bytes or more,
  \<open>create_jit_backup\<close> prints the skipping diagnostic and returns 0, the world being
  otherwise as it was. On a file of exactly \<open>JIT_BACKUP_MAX_SIZE\<close> bytes it does not
  skip: when both files open and the storage injects no fault, the backup file holds
  the contents of the source, \<open>backups_created\<close> is one higher and the function returns 0.
\<close>

theorem backup_size_cap:
  assumes "files w p = Some d"
  shows "(int (length d) \<ge> JIT_BACKUP_MAX_SIZE + 1
            \<longrightarrow> create_jit_backup global_ctx p w = (0, fprintf_stderr (SkippingBackup p) w))
       \<and> (int (length d) = JIT_BACKUP_MAX_SIZE
            \<and> \<not> denied w p \<and> \<not> denied w (get_backup_path global_ctx p w)
            \<and> read_limit w p = None \<and> write_limit w (get_backup_path global_ctx p w) = None
            \<and> get_backup_path global_ctx p w \<noteq> p
            \<longrightarrow> fst (create_jit_backup global_ctx p w) = 0
                \<and> files (snd (create_jit_backup global_ctx p w))
                     (get_backup_path global_ctx p w) = Some d
                \<and> backups_created (stats (snd (create_jit_backup global_ctx p w)))
                    = backups_created (stats w) + 1
                \<and> stderr (snd (create_jit_backup global_ctx p w))
                    = stderr w @ [BackupCreated p (get_backup_path global_ctx p w)])"
proof (intro conjI impI)
  assume "int (length d) \<ge> JIT_BACKUP_MAX_SIZE + 1"
  then show "create_jit_backup global_ctx p w = (0, fprintf_stderr (SkippingBackup p) w)"
    using assms by (intro create_jit_backup_skip) auto
next
  assume h: "int (length d) = JIT_BACKUP_MAX_SIZE
            \<and> \<not> denied w p \<and> \<not> denied w (get_backup_path global_ctx p w)
            \<and> read_limit w p = None \<and> write_limit w (get_backup_path global_ctx p w) = None
            \<and> get_backup_path global_ctx p w \<noteq> p"
  then have le: "int (length d) \<le> JIT_BACKUP_MAX_SIZE" by simp
  note c = create_jit_backup_copy [OF assms le, of global_ctx]
  show "fst (create_jit_backup global_ctx p w) = 0" using c(1) h by simp
  show "files (snd (create_jit_backup global_ctx p w)) (get_backup_path global_ctx p w) = Some d"
    using c(2) h assms by (auto simp: device_takes_def stream_data_def)
  show "backups_created (stats (snd (create_jit_backup global_ctx p w)))
          = backups_created (stats w) + 1"
    using c(3) h by simp
  show "stderr (snd (create_jit_backup global_ctx p w))
          = stderr w @ [BackupCreated p (get_backup_path global_ctx p w)]"
    using c(4) h by simp
qed

theorem backup_size_cap_witness:
  "files (world_with_file ''/srv/storage/doc.txt'' (replicate 52428801 0x41))
     ''/srv/storage/doc.txt'' = Some (replicate 52428801 0x41)
   \<and> int (length (replicate 52428801 (0x41 :: byte))) \<ge> JIT_BACKUP_MAX_SIZE + 1
   \<and> create_jit_backup storage_ctx ''/srv/storage/doc.txt''
         (world_with_file ''/srv/storage/doc.txt'' (replicate 52428801 0x41))
       = (0, fprintf_stderr (SkippingBackup ''/srv/storage/doc.txt'')
               (world_with_file ''/srv/storage/doc.txt'' (replicate 52428801 0x41)))
   \<and> files (world_with_file ''/srv/storage/doc.txt'' (replicate 52428800 0x41))
       ''/srv/storage/doc.txt'' = Some (replicate 52428800 0x41)
   \<and> int (length (replicate 52428800 (0x41 :: byte))) = JIT_BACKUP_MAX_SIZE
   \<and> fst (create_jit_backup storage_ctx ''/srv/storage/doc.txt''
         (world_with_file ''/srv/storage/doc.txt'' (replicate 52428800 0x41))) = 0
   \<and> files (snd (create_jit_backup storage_ctx ''/srv/storage/doc.txt''
         (world_with_file ''/srv/storage/doc.txt'' (replicate 52428800 0x41))))
       ''/srv/storage/.sentinelfs_backups/doc.txt.1700000000.backup''
       = Some (replicate 52428800 0x41)
   \<and> backups_created (stats (snd (create_jit_backup storage_ctx ''/srv/storage/doc.txt''
         (world_with_file ''/srv/storage/doc.txt'' (replicate 52428800 0x41))))) = 1"
  using backup_size_cap [of "world_with_file ''/srv/storage/doc.txt'' (replicate 52428801 0x41)"
          "''/srv/storage/doc.txt''" "replicate 52428801 0x41" storage_ctx]
        backup_size_cap [of "world_with_file ''/srv/storage/doc.txt'' (replicate 52428800 0x41)"
          "''/srv/storage/doc.txt''" "replicate 52428800 0x41" storage_ctx]
  by (simp add: backup_path_doc JIT_BACKUP_MAX_SIZE_def doc_not_denied
        world_with_file_fields initial_stats_def)


lemma backup_path_doc_short:
  "get_backup_path storage_ctx ''/srv/storage/doc.txt'' world_short_write
     = ''/srv/storage/.sentinelfs_backups/doc.txt.1700000000.backup''"
  "get_backup_path storage_ctx ''/srv/storage/doc.txt'' world_read_error
     = ''/srv/storage/.sentinelfs_backups/doc.txt.1700000000.backup''"
  by (simp_all add: get_backup_path_def storage_ctx_def make_context_def
        world_short_write_def world_read_error_def world_with_file_fields
        snprintf_def MAX_PATH_def BACKUP_DIR_def dec_long_def dec_nat.simps)

text \<open>
  C4 (the code departs from the claim). The copy loop discards what \<open>fread\<close> and
  \<open>fwrite\<close> report. With a device that takes two bytes, the backup of the five bytes of
  \<open>doc.txt\<close> holds two of them; with a read error after one byte it holds one. In both
  worlds \<open>create_jit_backup\<close> returns 0 and increments \<open>backups_created\<close>.
\<close>

theorem backup_ignores_copy_errors:
  "fst (create_jit_backup storage_ctx ''/srv/storage/doc.txt'' world_short_write) = 0
   \<and> backups_created (stats (snd (create_jit_backup storage_ctx ''/srv/storage/doc.txt''
        world_short_write))) = 1
   \<and> files (snd (create_jit_backup storage_ctx ''/srv/storage/doc.txt'' world_short_write))
        ''/srv/storage/.sentinelfs_backups/doc.txt.1700000000.backup'' = Some [0x68, 0x65]
   \<and> files (snd (create_jit_backup storage_ctx ''/srv/storage/doc.txt'' world_short_write))
        ''/srv/storage/doc.txt'' = Some [0x68, 0x65, 0x6C, 0x6C, 0x6F]
   \<and> fst (create_jit_backup storage_ctx ''/srv/storage/doc.txt'' world_read_error) = 0
   \<and> backups_created (stats (snd (create_jit_backup storage_ctx ''/srv/storage/doc.txt''
        world_read_error))) = 1
   \<and> files (snd (create_jit_backup storage_ctx ''/srv/storage/doc.txt'' world_read_error))
        ''/srv/storage/.sentinelfs_backups/doc.txt.1700000000.backup'' = Some [0x68]"
proof -
  have f1: "files world_short_write ''/srv/storage/doc.txt'' = Some [0x68, 0x65, 0x6C, 0x6C, 0x6F]"
    and f2: "files world_read_error ''/srv/storage/doc.txt'' = Some [0x68, 0x65, 0x6C, 0x6C, 0x6F]"
    by (simp_all add: world_short_write_def world_read_error_def world_with_file_fields)
  have le: "int (length [0x68, 0x65, 0x6C, 0x6C, 0x6F :: byte]) \<le> JIT_BACKUP_MAX_SIZE"
    by (simp add: JIT_BACKUP_MAX_SIZE_def)
  have d1: "\<not> denied world_short_write ''/srv/storage/doc.txt''"
    "\<not> denied world_short_write
         (get_backup_path storage_ctx ''/srv/storage/doc.txt'' world_short_write)"
    and d2: "\<not> denied world_read_error ''/srv/storage/doc.txt''"
    "\<not> denied world_read_error
         (get_backup_path storage_ctx ''/srv/storage/doc.txt'' world_read_error)"
    by (simp_all add: backup_path_doc_short)
       (simp_all add: world_short_write_def world_read_error_def doc_not_denied)
  note a = create_jit_backup_copy [OF f1 le d1]
  note b = create_jit_backup_copy [OF f2 le d2]
  have s1: "stats world_short_write = initial_stats" and s2: "stats world_read_error = initial_stats"
    by (simp_all add: world_short_write_def world_read_error_def world_with_file_fields)
  have l1: "write_limit world_short_write q = Some 2" "read_limit world_short_write q = None"
    and l2: "write_limit world_read_error q = None" "read_limit world_read_error q = Some 1" for q
    by (simp_all add: world_short_write_def world_read_error_def world_with_file_fields)
  show ?thesis
    by (simp add: a b backup_path_doc_short s1 s2 initial_stats_def f1 f2 l1 l2
          device_takes_def stream_data_def)
qed

subsection \<open>The write operation\<close>

lemma detect_ransomware_fst:
  "fst (detect_ransomware fp global_ctx buf w)
     = (if fst (is_whitelisted_file global_ctx buf w0) = 0
           \<and> calculate_entropy fp buf > ENTROPY_THRESHOLD
        then - EIO else 0)"
  using is_whitelisted_file_fst_indep [of global_ctx buf
          "w\<lparr>stats := (stats w)\<lparr>total_writes := total_writes (stats w) + 1\<rparr>\<rparr>" w0]
  by (simp add: detect_ransomware_def Let_def split_beta)

lemma detect_ransomware_world:
  "files (snd (detect_ransomware fp global_ctx buf w)) = files w"
  "open_files (snd (detect_ransomware fp global_ctx buf w)) = open_files w"
  "errno_of (snd (detect_ransomware fp global_ctx buf w)) = errno_of w"
  "denied (snd (detect_ransomware fp global_ctx buf w)) = denied w"
  by (simp_all add: detect_ransomware_def Let_def split_beta is_whitelisted_file_world
        fprintf_stderr_def)



lemma jit_backup_phase_absent:
  "files w p = None \<Longrightarrow> jit_backup_phase global_ctx p offset w = w"
  by (simp add: jit_backup_phase_def stat_def)






text \<open>
  C10 (as stated, refuted). The storage tree holds the regular file \<open>doc.txt\<close>. The
  path \<open>/doc.txt/x\<close> names no file and the payload passes the gate, but the lookup runs
  through a regular file: \<open>open\<close> reports \<open>ENOTDIR\<close>, and the write returns \<open>-ENOTDIR\<close>
  (-20), not \<open>-ENOENT\<close> (-2).
\<close>

theorem write_missing_not_enoent_counterexample:
  "\<not> (fst (is_whitelisted_file storage_ctx (replicate 4096 0x41)
            (world_with_file ''/srv/storage/doc.txt'' [0x68, 0x65, 0x6C, 0x6C, 0x6F])) = 0
       \<and> calculate_entropy exact_arith (replicate 4096 0x41) > 7.5)
   \<and> files (world_with_file ''/srv/storage/doc.txt'' [0x68, 0x65, 0x6C, 0x6C, 0x6F])
        (translate_path storage_ctx ''/doc.txt/x'') = None
   \<and> fst (sentinelfs_write exact_arith storage_ctx ''/doc.txt/x'' (replicate 4096 0x41) 0
          (world_with_file ''/srv/storage/doc.txt'' [0x68, 0x65, 0x6C, 0x6C, 0x6F])) = - 20
   \<and> - 20 \<noteq> - ENOENT"
proof -
  let ?w = "world_with_file ''/srv/storage/doc.txt'' [0x68, 0x65, 0x6C, 0x6C, 0x6F]"
  have t: "translate_path storage_ctx ''/doc.txt/x'' = ''/srv/storage/doc.txt/x''"
    by (simp add: translate_path_def storage_ctx_def make_context_def snprintf_def MAX_PATH_def)
  have c: "calculate_entropy exact_arith (replicate 4096 (0x41::byte)) = 0"
    by (rule exact_entropy_single [of _ "0x41"]) simp
  have f: "files ?w ''/srv/storage/doc.txt/x'' = None"
    by (simp add: world_with_file_fields)
  have e: "errno_of ?w ''/srv/storage/doc.txt/x'' = 20"
    by (simp add: world_with_file_def world_with_def ENOTDIR_def)
  have w1: "jit_backup_phase storage_ctx ''/srv/storage/doc.txt/x'' 0 ?w = ?w"
    using f by (rule jit_backup_phase_absent)
  have d: "fst (detect_ransomware exact_arith storage_ctx (replicate 4096 0x41) ?w) = 0"
    by (simp add: detect_ransomware_fst [where ?w0.0 = ?w] c ENTROPY_THRESHOLD_def)
  have o: "open_wronly (snd (detect_ransomware exact_arith storage_ctx (replicate 4096 0x41) ?w))
             ''/srv/storage/doc.txt/x'' = Inl 20"
    using f e by (simp add: open_wronly_def detect_ransomware_world)
  have "fst (sentinelfs_write exact_arith storage_ctx ''/doc.txt/x'' (replicate 4096 0x41) 0 ?w)
          = - 20"
    using d o by (simp add: sentinelfs_write_def Let_def split_beta t w1)
  then show ?thesis using c f by (simp add: t ENOENT_def)
qed

text \<open>
  C10 (amended). When the payload passes the gate and the concrete path names no file,
  \<open>sentinelfs_write\<close> returns the negated error number that \<open>open\<close> reports for the
  path, \<open>-ENOENT\<close> when that is \<open>ENOENT\<close>, and the set of files is unchanged: \<open>open\<close>
  is called with \<open>O_WRONLY\<close> alone. \<open>sentinelfs_create\<close> on the same path, when the
  system does not refuse it, creates the empty file.
\<close>

theorem write_never_creates:
  assumes "\<not> (fst (is_whitelisted_file global_ctx buf w) = 0 \<and> calculate_entropy fp buf > 7.5)"
    and "files w (translate_path global_ctx path) = None"
  shows "fst (sentinelfs_write fp global_ctx path buf offset w)
           = - errno_of w (translate_path global_ctx path)
       \<and> (errno_of w (translate_path global_ctx path) = ENOENT
           \<longrightarrow> fst (sentinelfs_write fp global_ctx path buf offset w) = - ENOENT)
       \<and> files (snd (sentinelfs_write fp global_ctx path buf offset w)) = files w
       \<and> open_files (snd (sentinelfs_write fp global_ctx path buf offset w)) = open_files w
       \<and> (\<not> denied w (translate_path global_ctx path)
           \<longrightarrow> fst (sentinelfs_create global_ctx path w) = 0
               \<and> files (snd (sentinelfs_create global_ctx path w))
                     (translate_path global_ctx path) = Some [])"
proof -
  let ?full = "translate_path global_ctx path"
  have cr: "\<not> denied w ?full \<Longrightarrow>
            fst (sentinelfs_create global_ctx path w) = 0
            \<and> files (snd (sentinelfs_create global_ctx path w)) ?full = Some []"
    by (simp add: sentinelfs_create_def creat_def close_fd_def)
  have w1: "jit_backup_phase global_ctx ?full offset w = w"
    using assms(2) by (rule jit_backup_phase_absent)
  have d: "fst (detect_ransomware fp global_ctx buf w) = 0"
    using assms(1) by (auto simp: detect_ransomware_fst [where ?w0.0 = w] ENTROPY_THRESHOLD_def)
  have o: "open_wronly (snd (detect_ransomware fp global_ctx buf w)) ?full
             = Inl (errno_of w ?full)"
    using assms(2) by (simp add: open_wronly_def detect_ransomware_world)
  have "fst (sentinelfs_write fp global_ctx path buf offset w) = - errno_of w ?full"
    and "files (snd (sentinelfs_write fp global_ctx path buf offset w)) = files w"
    and "open_files (snd (sentinelfs_write fp global_ctx path buf offset w)) = open_files w"
    using d o by (simp_all add: sentinelfs_write_def Let_def split_beta w1 detect_ransomware_world)
  then show ?thesis using cr by simp
qed

theorem write_never_creates_witness:
  "\<not> (fst (is_whitelisted_file storage_ctx (replicate 4096 0x41) (world_with Map.empty)) = 0
       \<and> calculate_entropy exact_arith (replicate 4096 0x41) > 7.5)
   \<and> files (world_with Map.empty) (translate_path storage_ctx ''/hello.txt'') = None
   \<and> errno_of (world_with Map.empty) (translate_path storage_ctx ''/hello.txt'') = ENOENT
   \<and> fst (sentinelfs_write exact_arith storage_ctx ''/hello.txt'' (replicate 4096 0x41) 0
            (world_with Map.empty)) = - 2
   \<and> files (snd (sentinelfs_write exact_arith storage_ctx ''/hello.txt'' (replicate 4096 0x41) 0
            (world_with Map.empty))) ''/srv/storage/hello.txt'' = None
   \<and> \<not> denied (world_with Map.empty) (translate_path storage_ctx ''/hello.txt'')
   \<and> fst (sentinelfs_create storage_ctx ''/hello.txt'' (world_with Map.empty)) = 0
   \<and> files (snd (sentinelfs_create storage_ctx ''/hello.txt'' (world_with Map.empty)))
         (translate_path storage_ctx ''/hello.txt'') = Some []"
proof -
  have c: "calculate_entropy exact_arith (replicate 4096 (0x41::byte)) = 0"
    by (rule exact_entropy_single [of _ "0x41"]) simp
  show ?thesis
    using write_never_creates [of storage_ctx "replicate 4096 0x41" "world_with Map.empty"
            exact_arith "''/hello.txt''" 0] c
    by (simp add: ENOENT_def world_with_no_file world_with_fields)
qed

end
